theory Spec2Isabelle
  imports Main "HOL-Library.List_Lexorder" "HOL-Library.Char_ord" "HOL-Library.Multiset"
begin

section \<open>Python values, dictionaries and exceptions\<close>

text \<open>
  The handlers and serializers of the repository pass around Python strings, lists and
  dictionaries. A dictionary is kept as an association list with one entry per key;
  \<open>dict_set\<close> is \<open>d[k] = v\<close> and \<open>dict_pop\<close> is \<open>d.pop(k, default)\<close>.
\<close>

datatype pyval =
    PyNone
  | PyBool bool
  | PyInt int
  | PyStr string
  | PyList "pyval list"
  | PyDict "(string \<times> pyval) list"

type_synonym pydict = "(string \<times> pyval) list"

definition dict_keys :: "pydict \<Rightarrow> string set" where
  "dict_keys d = fst ` set d"

definition dict_get :: "pydict \<Rightarrow> string \<Rightarrow> pyval option" where
  "dict_get d k = map_of d k"

fun dict_del :: "string \<Rightarrow> pydict \<Rightarrow> pydict" where
  "dict_del k [] = []"
| "dict_del k ((k', v) # d) = (if k' = k then dict_del k d else (k', v) # dict_del k d)"

fun dict_set :: "pydict \<Rightarrow> string \<Rightarrow> pyval \<Rightarrow> pydict" where
  "dict_set [] k v = [(k, v)]"
| "dict_set ((k', v') # d) k v = (if k' = k then (k, v) # d else (k', v') # dict_set d k v)"

definition dict_pop :: "pydict \<Rightarrow> string \<Rightarrow> pyval \<Rightarrow> pyval \<times> pydict" where
  "dict_pop d k dflt = (case map_of d k of None \<Rightarrow> (dflt, d) | Some v \<Rightarrow> (v, dict_del k d))"

fun item :: "pyval \<Rightarrow> string \<Rightarrow> pyval option" where
  "item (PyDict d) k = map_of d k"
| "item _ k = None"

text \<open>
  The exceptions the modelled code raises or catches. \<open>IndexError\<close> and \<open>KeyError\<close>
  are subclasses of \<open>LookupError\<close>, so \<open>except LookupError\<close> catches all three.
\<close>

datatype error = LookupError | IndexError | KeyError | ValueError | OtherError string

fun isinstance_LookupError :: "error \<Rightarrow> bool" where
  "isinstance_LookupError LookupError = True"
| "isinstance_LookupError IndexError = True"
| "isinstance_LookupError KeyError = True"
| "isinstance_LookupError _ = False"

section \<open>The manager as the callers see it\<close>

text \<open>
  \<open>DataHubManager\<close> lives in \<open>core/db/manager.py\<close>, which is not part of the sources.
  The serializers and views only call its methods, so each method they use is a field of
  this record: what the call returns, or the exception it raises.
\<close>

record manager =
  mgr_list_repos :: "error + string list"
  mgr_list_collaborators :: "string \<Rightarrow> error + pyval"
  mgr_list_tables :: "string \<Rightarrow> error + string list"
  mgr_list_views :: "string \<Rightarrow> error + string list"
  mgr_execute_sql :: "string list \<Rightarrow> string \<Rightarrow> error + pydict"
  mgr_create_repo :: "string \<Rightarrow> error + bool"
  mgr_delete_repo :: "string \<Rightarrow> bool \<Rightarrow> error + bool"

section \<open>api/serializer.py\<close>

record DataHubSerializer =
  self_username :: string
  self_repo_base :: string
  self_manager :: manager

text \<open>
  The loop of \<open>RepoSerializer.user_owned_repos\<close>: one dictionary per repo, appended to
  \<open>repo_obj_list\<close>; an exception of \<open>list_collaborators\<close> leaves the loop.
\<close>

fun user_owned_repos_loop ::
  "DataHubSerializer \<Rightarrow> string list \<Rightarrow> pyval list \<Rightarrow> error + pyval list" where
  "user_owned_repos_loop self [] repo_obj_list = Inr repo_obj_list"
| "user_owned_repos_loop self (repo # repos) repo_obj_list =
     (case mgr_list_collaborators (self_manager self) repo of
        Inl e \<Rightarrow> Inl e
      | Inr collaborators \<Rightarrow>
          user_owned_repos_loop self repos
            (repo_obj_list @
              [PyDict [(''repo_name'', PyStr repo),
                       (''permissions'', PyStr ''ALL''),
                       (''collaborators'', collaborators),
                       (''owner'', PyStr (self_username self))]]))"

definition user_owned_repos :: "DataHubSerializer \<Rightarrow> error + pyval" where
  "user_owned_repos self =
     (case mgr_list_repos (self_manager self) of
        Inl e \<Rightarrow> Inl e
      | Inr repos \<Rightarrow>
          (case user_owned_repos_loop self (sort repos) [] of
             Inl e \<Rightarrow> Inl e
           | Inr repo_obj_list \<Rightarrow> Inr (PyDict [(''repos'', PyList repo_obj_list)])))"

text \<open>
  The entry that the loop builds for a repo, from the collaborators reported for each repo.
\<close>

definition repo_obj :: "DataHubSerializer \<Rightarrow> (string \<Rightarrow> pyval) \<Rightarrow> string \<Rightarrow> pyval" where
  "repo_obj self collaborators_of repo =
     PyDict [(''repo_name'', PyStr repo),
             (''permissions'', PyStr ''ALL''),
             (''collaborators'', collaborators_of repo),
             (''owner'', PyStr (self_username self))]"

text \<open>
  \<open>QuerySerializer.execute_sql(query, repo=None)\<close>. \<open>set_search_paths([repo])\<close> changes the
  manager's search path before the query runs, so the search path is the first argument of
  \<open>mgr_execute_sql\<close> (\<open>[]\<close> when the call does not set one). \<open>if repo\<close> is false for
  \<open>None\<close> and for the empty string. The two assignments pop first and store second, as
  Python evaluates the right-hand side first.
\<close>

definition QuerySerializer_execute_sql ::
  "DataHubSerializer \<Rightarrow> string \<Rightarrow> string option \<Rightarrow> error + pydict" where
  "QuerySerializer_execute_sql self query repo =
     (let search_paths = (case repo of None \<Rightarrow> [] | Some r \<Rightarrow> if r = [] then [] else [r])
      in case mgr_execute_sql (self_manager self) search_paths query of
           Inl e \<Rightarrow> Inl e
         | Inr result \<Rightarrow>
             (let (tuples, result1) = dict_pop result ''tuples'' PyNone;
                  result2 = dict_set result1 ''rows'' tuples;
                  (fields, result3) = dict_pop result2 ''fields'' PyNone;
                  result4 = dict_set result3 ''columns'' fields
              in Inr result4))"

section \<open>browser/views.py\<close>

datatype http_method = GET | POST | OtherMethod string

record request =
  req_authenticated :: bool
  req_username :: string
  req_method :: http_method
  req_POST :: "(string \<times> string) list"
  req_csrf_token :: string

text \<open>
  What a view hands back: \<open>reverse(name, args)\<close> is kept as the route name with its
  arguments, since the URL table is not part of the sources.
\<close>

datatype response =
    HttpResponseForbidden string
  | HttpResponseRedirect string "string list"
  | render_to_response string pydict
  | redirect_to_login

text \<open>The manager methods a view called, in order, with the manager's user and repo base.\<close>

datatype manager_call =
    Create_repo string string string
  | Delete_repo string string string bool

text \<open>
  A view's outcome: the exception it raised or the response it returned (\<open>None\<close> when
  the function falls off its end), and the manager calls it made.
\<close>

type_synonym view_result = "(error + response option) \<times> manager_call list"

definition csrf :: "request \<Rightarrow> pydict" where
  "csrf request = [(''csrf_token'', PyStr (req_csrf_token request))]"

text \<open>
  \<open>repo_create\<close>, under \<open>@login_required\<close>: an anonymous request is sent to the login page
  before the body runs. \<open>req_POST\<close> holds the fields of the form in the order they were
  sent; \<open>request.POST['repo']\<close> is the last value sent for the field, and raises a
  \<open>KeyError\<close> when the field is missing.
\<close>

definition repo_create ::
  "(string \<Rightarrow> string \<Rightarrow> manager) \<Rightarrow> request \<Rightarrow> string \<Rightarrow> view_result" where
  "repo_create DataHubManager request repo_base =
     (if \<not> req_authenticated request then (Inr (Some redirect_to_login), [])
      else
        let username = req_username request in
        if username \<noteq> repo_base then
          (Inr (Some (HttpResponseForbidden
             (''Error: Permission Denied. '' @ username
                @ '' cannot create new repositories in '' @ repo_base @ ''.''))), [])
        else if req_method request = POST then
          (case map_of (rev (req_POST request)) ''repo'' of
             None \<Rightarrow> (Inl KeyError, [])
           | Some repo \<Rightarrow>
               (case mgr_create_repo (DataHubManager username repo_base) repo of
                  Inl e \<Rightarrow> (Inl e, [Create_repo username repo_base repo])
                | Inr _ \<Rightarrow>
                    (Inr (Some (HttpResponseRedirect ''browser-user'' [username])),
                     [Create_repo username repo_base repo])))
        else if req_method request = GET then
          (Inr (Some (render_to_response ''repo-create.html''
             ([(''repo_base'', PyStr repo_base), (''login'', PyStr username)] @ csrf request))), [])
        else (Inr None, []))"

text \<open>\<open>repo_delete\<close>, under \<open>@login_required\<close>; the body has no test on \<open>username\<close>.\<close>

definition repo_delete ::
  "(string \<Rightarrow> string \<Rightarrow> manager) \<Rightarrow> request \<Rightarrow> string \<Rightarrow> string \<Rightarrow> view_result" where
  "repo_delete DataHubManager request repo_base repo =
     (if \<not> req_authenticated request then (Inr (Some redirect_to_login), [])
      else
        let username = req_username request in
        (case mgr_delete_repo (DataHubManager username repo_base) repo True of
           Inl e \<Rightarrow> (Inl e, [Delete_repo username repo_base repo True])
         | Inr _ \<Rightarrow>
             (Inr (Some (HttpResponseRedirect ''browser-user-default'' [])),
              [Delete_repo username repo_base repo True])))"

text \<open>
  \<open>repo_tables\<close>: the \<open>try\<close> block runs \<open>list_tables\<close> then \<open>list_views\<close>; a
  \<open>LookupError\<close> from either resets both lists, any other exception leaves the view.
\<close>

definition repo_tables ::
  "(string \<Rightarrow> string \<Rightarrow> manager) \<Rightarrow> request \<Rightarrow> string \<Rightarrow> string \<Rightarrow> error + response" where
  "repo_tables DataHubManager request repo_base repo =
     (if \<not> req_authenticated request then Inr redirect_to_login
      else
        let username = req_username request;
            manager = DataHubManager username repo_base;
            listed =
              (case mgr_list_tables manager repo of
                 Inl e \<Rightarrow> if isinstance_LookupError e then Inr ([], []) else Inl e
               | Inr base_tables \<Rightarrow>
                   (case mgr_list_views manager repo of
                      Inl e \<Rightarrow> if isinstance_LookupError e then Inr ([], []) else Inl e
                    | Inr views \<Rightarrow> Inr (base_tables, views)))
        in case listed of
             Inl e \<Rightarrow> Inl e
           | Inr (base_tables, views) \<Rightarrow>
               Inr (render_to_response ''repo-browse-tables.html''
                 ([(''login'', PyStr username),
                   (''repo_base'', PyStr repo_base),
                   (''repo'', PyStr repo),
                   (''base_tables'', PyList (map PyStr base_tables)),
                   (''views'', PyList (map PyStr views))] @ csrf request)))"

section \<open>The database backend (core/db/backend/pg.py)\<close>

text \<open>
  Of the backend, only the tests and the callers are part of the sources, so its
  operations are written from the specification, and from the arguments and results its
  tests in \<open>core/test/test_connector_pg.py\<close> fix.
\<close>

subsection \<open>Identifier validator\<close>

definition is_letter :: "char \<Rightarrow> bool" where
  "is_letter c = ((CHR ''A'' \<le> c \<and> c \<le> CHR ''Z'') \<or> (CHR ''a'' \<le> c \<and> c \<le> CHR ''z''))"

definition is_digit :: "char \<Rightarrow> bool" where
  "is_digit c = (CHR ''0'' \<le> c \<and> c \<le> CHR ''9'')"

definition is_name_char :: "char \<Rightarrow> bool" where
  "is_name_char c = (is_letter c \<or> is_digit c \<or> c = CHR ''_'' \<or> c = CHR ''-'')"

definition is_underscore_or_hyphen :: "char \<Rightarrow> bool" where
  "is_underscore_or_hyphen c = (c = CHR ''_'' \<or> c = CHR ''-'')"

definition is_whitespace :: "char \<Rightarrow> bool" where
  "is_whitespace c = (c = CHR '' '' \<or> c = CHR 0x09 \<or> c = CHR 0x0A \<or> c = CHR 0x0B
                       \<or> c = CHR 0x0C \<or> c = CHR 0x0D)"

definition is_statement_separator :: "char \<Rightarrow> bool" where
  "is_statement_separator c = (c = CHR '';'')"

text \<open>
  Modelled from the spec: \<open>PGBackend._check_for_injections\<close> is not part of the
  sources. Section 4.1: the validator returns the name or fails with a validation error
  (the tests expect \<open>ValueError\<close>); it rejects the empty string and accepts a name that starts
  with a letter, continues with letters, digits, underscores and hyphens, neither starts
  nor ends with an underscore or hyphen, and holds no whitespace and no \<open>;\<close>.
\<close>

definition check_for_injections :: "string \<Rightarrow> error + string" where
  "check_for_injections noun =
     (if noun = [] then Inl ValueError
      else if \<not> is_letter (hd noun) then Inl ValueError
      else if \<not> list_all is_name_char (tl noun) then Inl ValueError
      else if is_underscore_or_hyphen (hd noun) \<or> is_underscore_or_hyphen (last noun)
        then Inl ValueError
      else if list_ex (\<lambda>c. is_whitespace c \<or> is_statement_separator c) noun
        then Inl ValueError
      else Inr noun)"

text \<open>
  The pattern \<open>^[A-Za-z][A-Za-z0-9_-]*$\<close> of section 8, read as an automaton over the
  whole string: \<open>matches_name_tail\<close> is the state after the first letter.
\<close>

fun matches_name_tail :: "string \<Rightarrow> bool" where
  "matches_name_tail [] = True"
| "matches_name_tail (c # cs) = (is_name_char c \<and> matches_name_tail cs)"

fun matches_name_pattern :: "string \<Rightarrow> bool" where
  "matches_name_pattern [] = False"
| "matches_name_pattern (c # cs) = (is_letter c \<and> matches_name_tail cs)"

text \<open>No leading and no trailing underscore or hyphen; the empty string has neither.\<close>

definition no_leading_or_trailing_mark :: "string \<Rightarrow> bool" where
  "no_leading_or_trailing_mark s =
     (s = [] \<or> (\<not> is_underscore_or_hyphen (hd s) \<and> \<not> is_underscore_or_hyphen (last s)))"

subsection \<open>Statement builder\<close>

text \<open>
  A parameter of a statement: an identifier wrapped for verbatim interpolation (\<open>AsIs\<close>) or
  a literal that the driver binds.
\<close>

datatype param = AsIs string | Bound string

text \<open>
  What an operation did: the names it passed to the validator, in order, and either the
  validation error or the statements (template and parameters) it sent to the engine.
\<close>

record issued =
  validated :: "string list"
  statements :: "error + (string \<times> param list) list"

text \<open>
  The validator calls of an operation, in order: the first failure ends them, before any
  statement is sent (section 4.1).
\<close>

fun check_nouns :: "string list \<Rightarrow> string list \<times> error option" where
  "check_nouns [] = ([], None)"
| "check_nouns (noun # nouns) =
     (case check_for_injections noun of
        Inl e \<Rightarrow> ([noun], Some e)
      | Inr _ \<Rightarrow> (let (checked, err) = check_nouns nouns in (noun # checked, err)))"

text \<open>Python's \<open>sep.join(xs)\<close>.\<close>

fun join :: "string \<Rightarrow> string list \<Rightarrow> string" where
  "join sep [] = []"
| "join sep [x] = x"
| "join sep (x # y # ys) = x @ sep @ join sep (y # ys)"

definition add_collaborator_query :: string where
  "add_collaborator_query =
     ''BEGIN;'' @
     ''GRANT USAGE ON SCHEMA %s TO %s;'' @
     ''GRANT %s ON ALL TABLES IN SCHEMA %s TO %s;'' @
     ''ALTER DEFAULT PRIVILEGES IN SCHEMA %s '' @
     ''GRANT %s ON TABLES TO %s;'' @
     ''COMMIT;''"

text \<open>
  Modelled from the spec: \<open>PGBackend.add_collaborator\<close> is not part of the sources.
  Section 4.5 and section 8: the repo, the collaborator and each privilege are validated;
  the privileges are joined with a comma and a space into one literal; one transaction
  template is issued with the eight parameters (repo, collaborator, privileges, repo,
  collaborator, repo, privileges, collaborator), each wrapped for verbatim interpolation
  as the test counts them.
\<close>

definition add_collaborator :: "string \<Rightarrow> string \<Rightarrow> string list \<Rightarrow> issued" where
  "add_collaborator repo collaborator privileges =
     (let (checked, err) = check_nouns (repo # collaborator # privileges) in
      case err of
        Some e \<Rightarrow> \<lparr> validated = checked, statements = Inl e \<rparr>
      | None \<Rightarrow>
          (let privileges_str = join '', '' privileges;
               params = map AsIs [repo, collaborator, privileges_str, repo,
                                  collaborator, repo, privileges_str, collaborator]
           in \<lparr> validated = checked,
                statements = Inr [(add_collaborator_query, params)] \<rparr>))"

subsection \<open>Caller-supplied SQL\<close>

text \<open>
  Modelled from the spec: the truncation of caller-supplied SQL is not part of the
  sources. Section 4.3: everything at and after the first statement separator is cut off.
\<close>

fun truncate_at_separator :: "string \<Rightarrow> string" where
  "truncate_at_separator [] = []"
| "truncate_at_separator (c # cs) =
     (if is_statement_separator c then [] else c # truncate_at_separator cs)"





subsection \<open>Listing collaborators\<close>

text \<open>
  Modelled from the spec: the parsing step of \<open>PGBackend.list_collaborators\<close> is not
  part of the sources. Section 4.5: an entry has the form
  \<open><grantee>=<perm-letters>/<grantor>\<close>; the username is the text before the first \<open>=\<close>,
  the permissions are the text from there to the next \<open>/\<close>. An entry without \<open>=\<close> or
  without \<open>/\<close> after it is not of that form and is refused.
\<close>

definition parse_acl_entry :: "string \<Rightarrow> error + pyval" where
  "parse_acl_entry entry =
     (let username = takeWhile (\<lambda>c. c \<noteq> CHR ''='') entry;
          after_eq = dropWhile (\<lambda>c. c \<noteq> CHR ''='') entry
      in if after_eq = [] then Inl ValueError
         else
           let permissions = takeWhile (\<lambda>c. c \<noteq> CHR ''/'') (tl after_eq);
               after_slash = dropWhile (\<lambda>c. c \<noteq> CHR ''/'') (tl after_eq)
           in if after_slash = [] then Inl ValueError
              else Inr (PyDict [(''username'', PyStr username),
                                (''permissions'', PyStr permissions)]))"

text \<open>
  Modelled from the spec: \<open>PGBackend.list_collaborators\<close> is not part of the sources.
  Its argument here is the list of access-control entries the catalog query returned for
  the repo; the result has one pair per entry, in order.
\<close>

fun list_collaborators :: "string list \<Rightarrow> error + pyval list" where
  "list_collaborators [] = Inr []"
| "list_collaborators (row # rows) =
     (case parse_acl_entry row of
        Inl e \<Rightarrow> Inl e
      | Inr collab_obj \<Rightarrow>
          (case list_collaborators rows of
             Inl e \<Rightarrow> Inl e
           | Inr collaborators \<Rightarrow> Inr (collab_obj # collaborators)))"

text \<open>An entry as the catalog writes it, from its three parts, and the pair it stands for.\<close>

definition acl_entry :: "string \<times> string \<times> string \<Rightarrow> string" where
  "acl_entry e = (case e of (grantee, perms, grantor) \<Rightarrow> grantee @ ''='' @ perms @ ''/'' @ grantor)"

definition acl_pair :: "string \<times> string \<times> string \<Rightarrow> pyval" where
  "acl_pair e = (case e of (grantee, perms, grantor) \<Rightarrow>
     PyDict [(''username'', PyStr grantee), (''permissions'', PyStr perms)])"

definition well_formed_acl :: "string \<times> string \<times> string \<Rightarrow> bool" where
  "well_formed_acl e = (case e of (grantee, perms, grantor) \<Rightarrow>
     \<not> list_ex (\<lambda>c. c = CHR ''='') grantee \<and> \<not> list_ex (\<lambda>c. c = CHR ''/'') perms)"

section \<open>Concrete inputs\<close>

text \<open>
  A manager and requests to run the definitions on: the manager owns three repos, finds no
  repo when asked for tables or views, and answers every query with a record of one
  thousand rows. \<open>example_failed_manager\<close> answers every query with the failure result of
  section 7 of the specification: the status false and the error.
\<close>

definition example_manager :: manager where
  "example_manager =
     \<lparr> mgr_list_repos = Inr [''zoo'', ''apple'', ''mid''],
       mgr_list_collaborators = (\<lambda>repo. Inr (PyList [])),
       mgr_list_tables = (\<lambda>repo. Inl LookupError),
       mgr_list_views = (\<lambda>repo. Inl LookupError),
       mgr_execute_sql = (\<lambda>search_paths query.
         Inr [(''status'', PyBool True), (''row_count'', PyInt 1000),
              (''tuples'', PyStr ''sometuples''), (''fields'', PyList [])]),
       mgr_create_repo = (\<lambda>repo. Inr True),
       mgr_delete_repo = (\<lambda>repo force. Inr True) \<rparr>"

definition example_failed_manager :: manager where
  "example_failed_manager =
     example_manager \<lparr> mgr_execute_sql := (\<lambda>search_paths query.
       Inr [(''status'', PyBool False), (''error'', PyStr ''relation does not exist'')]) \<rparr>"

definition example_serializer :: DataHubSerializer where
  "example_serializer =
     \<lparr> self_username = ''al_carter'', self_repo_base = ''al_carter'',
       self_manager = example_manager \<rparr>"

definition example_failed_serializer :: DataHubSerializer where
  "example_failed_serializer =
     \<lparr> self_username = ''al_carter'', self_repo_base = ''al_carter'',
       self_manager = example_failed_manager \<rparr>"

definition example_request :: "string \<Rightarrow> http_method \<Rightarrow> request" where
  "example_request username method =
     \<lparr> req_authenticated = True, req_username = username, req_method = method,
       req_POST = [(''repo'', ''data'')], req_csrf_token = ''token'' \<rparr>"


section \<open>Properties of the dictionaries\<close>

lemma map_of_dict_del: "map_of (dict_del k d) = (map_of d)(k := None)"
  by (induction d) auto

lemma map_of_dict_set: "map_of (dict_set d k v) = (map_of d)(k \<mapsto> v)"
  by (induction d) auto

lemma dict_keys_dom: "dict_keys d = dom (map_of d)"
  by (simp add: dict_keys_def dom_map_of_conv_image_fst)

lemma dict_keys_dict_del: "dict_keys (dict_del k d) = dict_keys d - {k}"
  by (simp add: dict_keys_dom map_of_dict_del)

lemma dict_keys_dict_set: "dict_keys (dict_set d k v) = insert k (dict_keys d)"
  by (simp add: dict_keys_dom map_of_dict_set)

lemma dict_keys_dict_pop: "dict_keys (snd (dict_pop d k dflt)) = dict_keys d - {k}"
  by (auto simp: dict_pop_def dict_keys_dict_del dict_keys_dom map_of_dict_del
      split: option.splits)

lemma fst_dict_pop:
  "fst (dict_pop d k dflt) = (case map_of d k of None \<Rightarrow> dflt | Some v \<Rightarrow> v)"
  by (simp add: dict_pop_def split: option.splits)

lemma map_of_dict_pop: "map_of (snd (dict_pop d k dflt)) = (map_of d)(k := None)"
  by (auto simp: dict_pop_def map_of_dict_del split: option.splits)

section \<open>The identifier validator\<close>

lemmas char_class_defs = is_letter_def is_digit_def is_name_char_def
  is_underscore_or_hyphen_def is_whitespace_def is_statement_separator_def

lemma matches_name_tail_list_all: "matches_name_tail cs = list_all is_name_char cs"
  by (induction cs) simp_all

lemma is_name_char_plain:
  "is_name_char c \<Longrightarrow> \<not> is_whitespace c \<and> \<not> is_statement_separator c"
  by (auto simp: char_class_defs)

lemma is_letter_name_char: "is_letter c \<Longrightarrow> is_name_char c"
  by (simp add: is_name_char_def)

lemma name_chars_no_whitespace:
  "list_all is_name_char s \<Longrightarrow>
   \<not> list_ex (\<lambda>c. is_whitespace c \<or> is_statement_separator c) s"
  by (induction s) (auto dest: is_name_char_plain)

lemma check_for_injections_accepts:
  assumes "matches_name_pattern s" and "no_leading_or_trailing_mark s"
  shows "check_for_injections s = Inr s"
proof (cases s)
  case Nil
  with assms(1) show ?thesis by simp
next
  case (Cons c cs)
  with assms(1) have l: "is_letter c" and t: "list_all is_name_char cs"
    by (simp_all add: matches_name_tail_list_all)
  from l t have "list_all is_name_char s"
    using Cons by (simp add: is_letter_name_char)
  then have nw: "\<not> list_ex (\<lambda>c. is_whitespace c \<or> is_statement_separator c) s"
    by (rule name_chars_no_whitespace)
  from assms(2) Cons
  have m: "\<not> is_underscore_or_hyphen (hd s)" "\<not> is_underscore_or_hyphen (last s)"
    by (simp_all add: no_leading_or_trailing_mark_def)
  show ?thesis
    using Cons l t nw m by (simp add: check_for_injections_def)
qed

lemma check_for_injections_bad_nouns:
  "check_for_injections ''_foo'' = Inl ValueError"
  "check_for_injections ''foo_'' = Inl ValueError"
  "check_for_injections ''-foo'' = Inl ValueError"
  "check_for_injections ''foo-'' = Inl ValueError"
  "check_for_injections ''foo bar'' = Inl ValueError"
  "check_for_injections ''injection;attack'' = Inl ValueError"
  "check_for_injections '';injection'' = Inl ValueError"
  "check_for_injections ''injection;'' = Inl ValueError"
  "check_for_injections [] = Inl ValueError"
  by (simp_all add: check_for_injections_def char_class_defs)

lemma check_for_injections_good_nouns:
  "check_for_injections ''good'' = Inr ''good''"
  "check_for_injections ''good_noun'' = Inr ''good_noun''"
  "check_for_injections ''good-noun'' = Inr ''good-noun''"
  "check_for_injections ''repo'' = Inr ''repo''"
  "check_for_injections ''receiver'' = Inr ''receiver''"
  "check_for_injections ''SELECT'' = Inr ''SELECT''"
  "check_for_injections ''USAGE'' = Inr ''USAGE''"
  "check_for_injections ''file_path'' = Inr ''file_path''"
  "check_for_injections ''CSV'' = Inr ''CSV''"
  "check_for_injections ''INSERT'' = Inr ''INSERT''"
  "check_for_injections ''UPDATE'' = Inr ''UPDATE''"
  by (simp_all add: check_for_injections_def char_class_defs)

text \<open>
  C1. Every string that matches \<open>^[A-Za-z][A-Za-z0-9_-]*$\<close> and has no leading or trailing
  underscore or hyphen is accepted by the validator, which returns it; each of the eight
  bad nouns of the test, and the empty string, fails with \<open>ValueError\<close>.
\<close>

theorem check_for_injections_pattern:
  "(\<forall>s. matches_name_pattern s \<and> no_leading_or_trailing_mark s
        \<longrightarrow> check_for_injections s = Inr s)
   \<and> check_for_injections ''_foo'' = Inl ValueError
   \<and> check_for_injections ''foo_'' = Inl ValueError
   \<and> check_for_injections ''-foo'' = Inl ValueError
   \<and> check_for_injections ''foo-'' = Inl ValueError
   \<and> check_for_injections ''foo bar'' = Inl ValueError
   \<and> check_for_injections ''injection;attack'' = Inl ValueError
   \<and> check_for_injections '';injection'' = Inl ValueError
   \<and> check_for_injections ''injection;'' = Inl ValueError
   \<and> check_for_injections [] = Inl ValueError"
  using check_for_injections_accepts check_for_injections_bad_nouns by blast

theorem check_for_injections_pattern_witness:
  "matches_name_pattern ''good-noun'' \<and> no_leading_or_trailing_mark ''good-noun''
   \<and> check_for_injections ''good-noun'' = Inr ''good-noun''
   \<and> matches_name_pattern ''good_noun'' \<and> no_leading_or_trailing_mark ''good_noun''
   \<and> check_for_injections ''good_noun'' = Inr ''good_noun''"
proof -
  have a: "matches_name_pattern ''good-noun'' \<and> no_leading_or_trailing_mark ''good-noun''"
    by (simp add: no_leading_or_trailing_mark_def char_class_defs)
  have b: "matches_name_pattern ''good_noun'' \<and> no_leading_or_trailing_mark ''good_noun''"
    by (simp add: no_leading_or_trailing_mark_def char_class_defs)
  from check_for_injections_pattern a b show ?thesis by blast
qed

section \<open>The statement builder\<close>


lemma check_nouns_three:
  "check_for_injections a = Inr a \<Longrightarrow> check_for_injections b = Inr b \<Longrightarrow>
   check_for_injections c = Inr c \<Longrightarrow> check_nouns [a, b, c] = ([a, b, c], None)"
  by simp

lemma truncate_at_separator_takeWhile:
  "truncate_at_separator s = takeWhile (\<lambda>c. c \<noteq> CHR '';'') s"
  by (induction s) (simp_all add: is_statement_separator_def)





lemma check_for_injections_cases:
  "check_for_injections noun = Inr noun \<or> check_for_injections noun = Inl ValueError"
  by (simp add: check_for_injections_def)

lemma check_nouns_valid:
  "list_all (\<lambda>noun. check_for_injections noun = Inr noun) nouns \<Longrightarrow>
   check_nouns nouns = (nouns, None)"
  by (induction nouns) simp_all

lemma check_nouns_refuses:
  "\<not> list_all (\<lambda>noun. check_for_injections noun = Inr noun) nouns \<Longrightarrow>
   snd (check_nouns nouns) = Some ValueError"
proof (induction nouns)
  case Nil
  then show ?case by simp
next
  case (Cons noun nouns)
  show ?case
  proof (cases "check_for_injections noun = Inr noun")
    case True
    with Cons show ?thesis by (simp add: split_beta)
  next
    case False
    then have "check_for_injections noun = Inl ValueError"
      using check_for_injections_cases [of noun] by simp
    then show ?thesis by simp
  qed
qed

lemma add_collaborator_refuses:
  "\<not> list_all (\<lambda>noun. check_for_injections noun = Inr noun) (repo # collaborator # privileges)
   \<Longrightarrow> statements (add_collaborator repo collaborator privileges) = Inl ValueError"
  using check_nouns_refuses [of "repo # collaborator # privileges"]
  by (simp add: add_collaborator_def split_beta split: option.splits)

lemma join_Cons: "join sep (x # xs) = x @ concat (map (\<lambda>y. sep @ y) xs)"
  by (induction sep "x # xs" arbitrary: x xs rule: join.induct) simp_all

text \<open>
  C4. For a repo, a collaborator and privileges that the validator accepts,
  \<open>add_collaborator\<close> validates exactly the repo, the collaborator and each privilege,
  and issues the grant transaction template once, with eight parameters in the order
  (repo, collaborator, privileges, repo, collaborator, repo, privileges, collaborator),
  where the privileges are joined into one literal: the first privilege, and before every
  further one a comma and a space. For a single privilege this is the privilege itself,
  with the three names validated; \<open>["SELECT", "USAGE"]\<close> gives the literal
  \<open>"SELECT, USAGE"\<close>, and the three privileges that the view passes give
  \<open>"SELECT, INSERT, UPDATE"\<close>.
\<close>

theorem add_collaborator_params:
  assumes "check_for_injections repo = Inr repo"
    and "check_for_injections collaborator = Inr collaborator"
    and "list_all (\<lambda>privilege. check_for_injections privilege = Inr privilege) privileges"
  shows "add_collaborator repo collaborator privileges =
           \<lparr> validated = repo # collaborator # privileges,
             statements = Inr [(''BEGIN;GRANT USAGE ON SCHEMA %s TO %s;GRANT %s ON ALL TABLES IN SCHEMA %s TO %s;ALTER DEFAULT PRIVILEGES IN SCHEMA %s GRANT %s ON TABLES TO %s;COMMIT;'',
               [AsIs repo, AsIs collaborator, AsIs (join '', '' privileges), AsIs repo,
                AsIs collaborator, AsIs repo, AsIs (join '', '' privileges),
                AsIs collaborator])] \<rparr>
         \<and> length [AsIs repo, AsIs collaborator, AsIs (join '', '' privileges), AsIs repo,
                AsIs collaborator, AsIs repo, AsIs (join '', '' privileges),
                AsIs collaborator] = 8
         \<and> (\<forall>privilege. privileges = [privilege] \<longrightarrow>
               add_collaborator repo collaborator [privilege] =
                 \<lparr> validated = [repo, collaborator, privilege],
                   statements = Inr [(add_collaborator_query,
                     [AsIs repo, AsIs collaborator, AsIs privilege, AsIs repo,
                      AsIs collaborator, AsIs repo, AsIs privilege, AsIs collaborator])] \<rparr>
               \<and> length (validated (add_collaborator repo collaborator [privilege])) = 3)
         \<and> (\<forall>p ps. join '', '' (p # ps) = p @ concat (map (\<lambda>q. '', '' @ q) ps))
         \<and> join '', '' [''SELECT'', ''USAGE''] = ''SELECT, USAGE''
         \<and> join '', '' [''SELECT'', ''INSERT'', ''UPDATE''] = ''SELECT, INSERT, UPDATE''
         \<and> statements (add_collaborator ''repo'' ''receiver'' [''SELECT'', ''USAGE'']) =
             Inr [(add_collaborator_query,
               [AsIs ''repo'', AsIs ''receiver'', AsIs ''SELECT, USAGE'', AsIs ''repo'',
                AsIs ''receiver'', AsIs ''repo'', AsIs ''SELECT, USAGE'', AsIs ''receiver''])]"
proof -
  have "list_all (\<lambda>noun. check_for_injections noun = Inr noun)
          (repo # collaborator # privileges)"
    using assms by simp
  then have c: "check_nouns (repo # collaborator # privileges)
                  = (repo # collaborator # privileges, None)"
    by (rule check_nouns_valid)
  have general: "add_collaborator repo collaborator privileges =
           \<lparr> validated = repo # collaborator # privileges,
             statements = Inr [(''BEGIN;GRANT USAGE ON SCHEMA %s TO %s;GRANT %s ON ALL TABLES IN SCHEMA %s TO %s;ALTER DEFAULT PRIVILEGES IN SCHEMA %s GRANT %s ON TABLES TO %s;COMMIT;'',
               [AsIs repo, AsIs collaborator, AsIs (join '', '' privileges), AsIs repo,
                AsIs collaborator, AsIs repo, AsIs (join '', '' privileges),
                AsIs collaborator])] \<rparr>"
    unfolding add_collaborator_def c by (simp add: add_collaborator_query_def Let_def)
  have single: "\<forall>privilege. privileges = [privilege] \<longrightarrow>
               add_collaborator repo collaborator [privilege] =
                 \<lparr> validated = [repo, collaborator, privilege],
                   statements = Inr [(add_collaborator_query,
                     [AsIs repo, AsIs collaborator, AsIs privilege, AsIs repo,
                      AsIs collaborator, AsIs repo, AsIs privilege, AsIs collaborator])] \<rparr>
               \<and> length (validated (add_collaborator repo collaborator [privilege])) = 3"
    using general by (auto simp: add_collaborator_query_def)
  have joined: "\<forall>p ps. join '', '' (p # ps) = p @ concat (map (\<lambda>q. '', '' @ q) ps)"
    by (simp add: join_Cons)
  have two: "statements (add_collaborator ''repo'' ''receiver'' [''SELECT'', ''USAGE'']) =
             Inr [(add_collaborator_query,
               [AsIs ''repo'', AsIs ''receiver'', AsIs ''SELECT, USAGE'', AsIs ''repo'',
                AsIs ''receiver'', AsIs ''repo'', AsIs ''SELECT, USAGE'', AsIs ''receiver''])]"
    using check_for_injections_good_nouns by (simp add: add_collaborator_def Let_def)
  show ?thesis using general single joined two by simp
qed

theorem add_collaborator_params_witness:
  "check_for_injections ''good_noun'' = Inr ''good_noun''
   \<and> check_for_injections ''good-noun'' = Inr ''good-noun''
   \<and> list_all (\<lambda>privilege. check_for_injections privilege = Inr privilege)
        [''SELECT'', ''INSERT'', ''UPDATE'']
   \<and> validated (add_collaborator ''good_noun'' ''good-noun'' [''SELECT'', ''INSERT'', ''UPDATE''])
       = [''good_noun'', ''good-noun'', ''SELECT'', ''INSERT'', ''UPDATE'']
   \<and> statements (add_collaborator ''good_noun'' ''good-noun'' [''SELECT'', ''INSERT'', ''UPDATE''])
       = Inr [(add_collaborator_query,
           [AsIs ''good_noun'', AsIs ''good-noun'', AsIs ''SELECT, INSERT, UPDATE'',
            AsIs ''good_noun'', AsIs ''good-noun'', AsIs ''good_noun'',
            AsIs ''SELECT, INSERT, UPDATE'', AsIs ''good-noun''])]
   \<and> validated (add_collaborator ''good_noun'' ''good-noun'' [''SELECT''])
       = [''good_noun'', ''good-noun'', ''SELECT'']
   \<and> statements (add_collaborator ''good_noun'' ''good-noun'' [''SELECT''])
       = Inr [(add_collaborator_query,
           [AsIs ''good_noun'', AsIs ''good-noun'', AsIs ''SELECT'', AsIs ''good_noun'',
            AsIs ''good-noun'', AsIs ''good_noun'', AsIs ''SELECT'', AsIs ''good-noun''])]"
proof -
  have three: "list_all (\<lambda>privilege. check_for_injections privilege = Inr privilege)
        [''SELECT'', ''INSERT'', ''UPDATE'']"
    using check_for_injections_good_nouns by simp
  have one: "list_all (\<lambda>privilege. check_for_injections privilege = Inr privilege) [''SELECT'']"
    using check_for_injections_good_nouns by simp
  show ?thesis
    using add_collaborator_params [OF check_for_injections_good_nouns(2)
        check_for_injections_good_nouns(3) three]
      add_collaborator_params [OF check_for_injections_good_nouns(2)
        check_for_injections_good_nouns(3) one]
      check_for_injections_good_nouns(2) check_for_injections_good_nouns(3) three
    by (simp add: add_collaborator_query_def)
qed

section \<open>Listing collaborators\<close>

lemma takeWhile_upto: "c \<notin> set xs \<Longrightarrow> takeWhile (\<lambda>x. x \<noteq> c) (xs @ c # ys) = xs"
  by (induction xs) auto

lemma dropWhile_upto: "c \<notin> set xs \<Longrightarrow> dropWhile (\<lambda>x. x \<noteq> c) (xs @ c # ys) = c # ys"
  by (induction xs) auto

lemma parse_acl_entry_well_formed:
  assumes "well_formed_acl e"
  shows "parse_acl_entry (acl_entry e) = Inr (acl_pair e)"
proof -
  obtain g p r where e: "e = (g, p, r)" by (cases e) auto
  from assms e have g: "CHR ''='' \<notin> set g" and p: "CHR ''/'' \<notin> set p"
    by (auto simp: well_formed_acl_def list_ex_iff)
  have 1: "takeWhile (\<lambda>c. c \<noteq> CHR ''='') (g @ CHR ''='' # p @ CHR ''/'' # r) = g"
    using g by (rule takeWhile_upto)
  have 2: "dropWhile (\<lambda>c. c \<noteq> CHR ''='') (g @ CHR ''='' # p @ CHR ''/'' # r)
             = CHR ''='' # p @ CHR ''/'' # r"
    using g by (rule dropWhile_upto)
  have 3: "takeWhile (\<lambda>c. c \<noteq> CHR ''/'') (p @ CHR ''/'' # r) = p"
    using p by (rule takeWhile_upto)
  have 4: "dropWhile (\<lambda>c. c \<noteq> CHR ''/'') (p @ CHR ''/'' # r) = CHR ''/'' # r"
    using p by (rule dropWhile_upto)
  show ?thesis
    unfolding e by (simp add: parse_acl_entry_def acl_entry_def acl_pair_def 1 2 3 4 Let_def)
qed

lemma list_collaborators_well_formed:
  "list_all well_formed_acl es \<Longrightarrow>
   list_collaborators (map acl_entry es) = Inr (map acl_pair es)"
  by (induction es) (simp_all add: parse_acl_entry_well_formed)

text \<open>
  C8. For every list of entries of the form \<open><grantee>=<perm-letters>/<grantor>\<close> (no
  \<open>=\<close> in the grantee, no \<open>/\<close> in the permission letters), \<open>list_collaborators\<close> returns
  one pair of username and permissions per entry, in the order of the entries. The rows
  \<open>al_carter=UC/al_carter\<close> and \<open>foo_bar=U/al_carter\<close> give the two pairs of the test, and
  an entry with nothing before \<open>=\<close> gives a pair whose username is empty.
\<close>

theorem list_collaborators_pairs:
  "(\<forall>es. list_all well_formed_acl es \<longrightarrow>
        list_collaborators (map acl_entry es) = Inr (map acl_pair es))
   \<and> list_collaborators [''al_carter=UC/al_carter'', ''foo_bar=U/al_carter''] =
       Inr [PyDict [(''username'', PyStr ''al_carter''), (''permissions'', PyStr ''UC'')],
            PyDict [(''username'', PyStr ''foo_bar''), (''permissions'', PyStr ''U'')]]
   \<and> (\<forall>perms grantor. well_formed_acl ([], perms, grantor) \<longrightarrow>
        list_collaborators [''='' @ perms @ ''/'' @ grantor] =
          Inr [PyDict [(''username'', PyStr []), (''permissions'', PyStr perms)]])"
proof -
  have a: "\<forall>es. list_all well_formed_acl es \<longrightarrow>
        list_collaborators (map acl_entry es) = Inr (map acl_pair es)"
    by (simp add: list_collaborators_well_formed)
  have b: "list_collaborators [''al_carter=UC/al_carter'', ''foo_bar=U/al_carter''] =
       Inr [PyDict [(''username'', PyStr ''al_carter''), (''permissions'', PyStr ''UC'')],
            PyDict [(''username'', PyStr ''foo_bar''), (''permissions'', PyStr ''U'')]]"
    by (simp add: parse_acl_entry_def)
  have c: "\<forall>perms grantor. well_formed_acl ([], perms, grantor) \<longrightarrow>
        list_collaborators [''='' @ perms @ ''/'' @ grantor] =
          Inr [PyDict [(''username'', PyStr []), (''permissions'', PyStr perms)]]"
  proof (intro allI impI)
    fix perms grantor
    assume "well_formed_acl ([], perms, grantor)"
    then show "list_collaborators [''='' @ perms @ ''/'' @ grantor] =
          Inr [PyDict [(''username'', PyStr []), (''permissions'', PyStr perms)]]"
      using list_collaborators_well_formed [of "[([], perms, grantor)]"]
      by (simp add: acl_entry_def acl_pair_def)
  qed
  show ?thesis using a b c by blast
qed

theorem list_collaborators_pairs_witness:
  "list_all well_formed_acl [(''bob'', ''r'', ''al_carter''), ([], ''U'', ''al_carter'')]
   \<and> map acl_entry [(''bob'', ''r'', ''al_carter''), ([], ''U'', ''al_carter'')]
       = [''bob=r/al_carter'', ''=U/al_carter'']
   \<and> list_collaborators [''bob=r/al_carter'', ''=U/al_carter''] =
       Inr [PyDict [(''username'', PyStr ''bob''), (''permissions'', PyStr ''r'')],
            PyDict [(''username'', PyStr []), (''permissions'', PyStr ''U'')]]"
proof -
  have w: "list_all well_formed_acl [(''bob'', ''r'', ''al_carter''), ([], ''U'', ''al_carter'')]"
    by (simp add: well_formed_acl_def)
  have "list_collaborators
          (map acl_entry [(''bob'', ''r'', ''al_carter''), ([], ''U'', ''al_carter'')])
        = Inr (map acl_pair [(''bob'', ''r'', ''al_carter''), ([], ''U'', ''al_carter'')])"
    using list_collaborators_pairs w by blast
  then show ?thesis
    using w by (simp add: acl_entry_def acl_pair_def)
qed

section \<open>The result record of a query\<close>

text \<open>
  C5, as stated, fails: the record of an execution does not have the four keys
  \<open>status\<close>, \<open>row_count\<close>, \<open>columns\<close>, \<open>rows\<close> for every statement. When the statement
  fails and the manager hands back the failure result of the specification, with the
  status and the error, \<open>QuerySerializer.execute_sql\<close> returns a record with the keys
  \<open>status\<close>, \<open>error\<close>, \<open>rows\<close> and \<open>columns\<close>.
\<close>

theorem execute_sql_keys_counterexample:
  "QuerySerializer_execute_sql example_failed_serializer ''SELECT * FROM missing'' None
     = Inr [(''status'', PyBool False), (''error'', PyStr ''relation does not exist''),
            (''rows'', PyNone), (''columns'', PyNone)]
   \<and> dict_keys [(''status'', PyBool False), (''error'', PyStr ''relation does not exist''),
                 (''rows'', PyNone), (''columns'', PyNone)]
       \<noteq> {''status'', ''row_count'', ''columns'', ''rows''}"
proof -
  have run: "QuerySerializer_execute_sql example_failed_serializer ''SELECT * FROM missing'' None
     = Inr [(''status'', PyBool False), (''error'', PyStr ''relation does not exist''),
            (''rows'', PyNone), (''columns'', PyNone)]"
    by (simp add: QuerySerializer_execute_sql_def example_failed_serializer_def
        example_failed_manager_def example_manager_def dict_pop_def)
  have "''error'' \<in> dict_keys [(''status'', PyBool False),
      (''error'', PyStr ''relation does not exist''), (''rows'', PyNone), (''columns'', PyNone)]"
    by (simp add: dict_keys_def)
  moreover have "''error'' \<notin> {''status'', ''row_count'', ''columns'', ''rows''}"
    by simp
  ultimately have "dict_keys [(''status'', PyBool False),
      (''error'', PyStr ''relation does not exist''), (''rows'', PyNone), (''columns'', PyNone)]
       \<noteq> {''status'', ''row_count'', ''columns'', ''rows''}"
    by metis
  with run show ?thesis by simp
qed

text \<open>
  C5, amended. For every query and repo for which the manager's \<open>execute_sql\<close> returns a
  record, \<open>QuerySerializer.execute_sql\<close> returns that record with \<open>tuples\<close> renamed to
  \<open>rows\<close> and \<open>fields\<close> renamed to \<open>columns\<close>: its keys are the keys of the manager's
  record without \<open>tuples\<close> and \<open>fields\<close>, with \<open>rows\<close> and \<open>columns\<close>; \<open>rows\<close> holds what
  was under \<open>tuples\<close> and \<open>columns\<close> what was under \<open>fields\<close> (\<open>None\<close> where the key was
  missing), and every other key keeps its value. So whenever the manager's record has
  exactly the keys \<open>status\<close>, \<open>row_count\<close>, \<open>tuples\<close> and \<open>fields\<close>, the record returned
  has exactly the keys \<open>status\<close>, \<open>row_count\<close>, \<open>columns\<close> and \<open>rows\<close>.
\<close>

theorem QuerySerializer_execute_sql_keys:
  assumes "mgr_execute_sql (self_manager self)
             (case repo of None \<Rightarrow> [] | Some r \<Rightarrow> if r = [] then [] else [r]) query = Inr result"
  shows "\<exists>out. QuerySerializer_execute_sql self query repo = Inr out
           \<and> dict_keys out
               = (dict_keys result - {''tuples'', ''fields''}) \<union> {''rows'', ''columns''}
           \<and> dict_get out ''rows''
               = Some (case dict_get result ''tuples'' of None \<Rightarrow> PyNone | Some t \<Rightarrow> t)
           \<and> dict_get out ''columns''
               = Some (case dict_get result ''fields'' of None \<Rightarrow> PyNone | Some f \<Rightarrow> f)
           \<and> (\<forall>k. k \<notin> {''tuples'', ''fields'', ''rows'', ''columns''}
                 \<longrightarrow> dict_get out k = dict_get result k)
           \<and> (dict_keys result = {''status'', ''row_count'', ''tuples'', ''fields''}
                 \<longrightarrow> dict_keys out = {''status'', ''row_count'', ''columns'', ''rows''}
                   \<and> dict_get out ''rows'' = dict_get result ''tuples''
                   \<and> dict_get out ''columns'' = dict_get result ''fields''
                   \<and> dict_get out ''status'' = dict_get result ''status''
                   \<and> dict_get out ''row_count'' = dict_get result ''row_count'')"
proof -
  let ?popped = "dict_pop result ''tuples'' PyNone"
  let ?result2 = "dict_set (snd ?popped) ''rows'' (fst ?popped)"
  let ?popped2 = "dict_pop ?result2 ''fields'' PyNone"
  let ?out = "dict_set (snd ?popped2) ''columns'' (fst ?popped2)"
  have run: "QuerySerializer_execute_sql self query repo = Inr ?out"
    using assms by (simp add: QuerySerializer_execute_sql_def split_beta Let_def)
  have keys: "dict_keys ?out
               = (dict_keys result - {''tuples'', ''fields''}) \<union> {''rows'', ''columns''}"
    by (auto simp: dict_keys_dict_set dict_keys_dict_pop)
  have rows: "dict_get ?out ''rows''
               = Some (case dict_get result ''tuples'' of None \<Rightarrow> PyNone | Some t \<Rightarrow> t)"
    by (simp add: dict_get_def map_of_dict_set map_of_dict_pop fst_dict_pop)
  have columns: "dict_get ?out ''columns''
               = Some (case dict_get result ''fields'' of None \<Rightarrow> PyNone | Some f \<Rightarrow> f)"
    by (simp add: dict_get_def map_of_dict_set map_of_dict_pop fst_dict_pop)
  have others: "\<forall>k. k \<notin> {''tuples'', ''fields'', ''rows'', ''columns''}
                 \<longrightarrow> dict_get ?out k = dict_get result k"
    by (simp add: dict_get_def map_of_dict_set map_of_dict_pop)
  have uniform: "dict_keys result = {''status'', ''row_count'', ''tuples'', ''fields''}
                 \<longrightarrow> dict_keys ?out = {''status'', ''row_count'', ''columns'', ''rows''}
                   \<and> dict_get ?out ''rows'' = dict_get result ''tuples''
                   \<and> dict_get ?out ''columns'' = dict_get result ''fields''
                   \<and> dict_get ?out ''status'' = dict_get result ''status''
                   \<and> dict_get ?out ''row_count'' = dict_get result ''row_count''"
  proof
    assume k: "dict_keys result = {''status'', ''row_count'', ''tuples'', ''fields''}"
    then obtain t f where t: "map_of result ''tuples'' = Some t"
      and f: "map_of result ''fields'' = Some f"
      unfolding dict_keys_dom by (metis domD insertI1 insertI2)
    have "dict_keys ?out = {''status'', ''row_count'', ''columns'', ''rows''}"
      using k by (auto simp: dict_keys_dict_set dict_keys_dict_pop)
    moreover have "dict_get ?out ''rows'' = dict_get result ''tuples''"
      using t rows by (simp add: dict_get_def)
    moreover have "dict_get ?out ''columns'' = dict_get result ''fields''"
      using f columns by (simp add: dict_get_def)
    moreover have "dict_get ?out ''status'' = dict_get result ''status''"
      using others by simp
    moreover have "dict_get ?out ''row_count'' = dict_get result ''row_count''"
      using others by simp
    ultimately show "dict_keys ?out = {''status'', ''row_count'', ''columns'', ''rows''}
                   \<and> dict_get ?out ''rows'' = dict_get result ''tuples''
                   \<and> dict_get ?out ''columns'' = dict_get result ''fields''
                   \<and> dict_get ?out ''status'' = dict_get result ''status''
                   \<and> dict_get ?out ''row_count'' = dict_get result ''row_count''"
      by (intro conjI)
  qed
  show ?thesis
    by (rule exI [of _ ?out], intro conjI; (rule run keys rows columns others uniform))
qed

theorem QuerySerializer_execute_sql_keys_witness:
  "mgr_execute_sql (self_manager example_serializer) [''repo''] ''SELECT 1''
     = Inr [(''status'', PyBool True), (''row_count'', PyInt 1000),
            (''tuples'', PyStr ''sometuples''), (''fields'', PyList [])]
   \<and> dict_keys [(''status'', PyBool True), (''row_count'', PyInt 1000),
                 (''tuples'', PyStr ''sometuples''), (''fields'', PyList [])]
       = {''status'', ''row_count'', ''tuples'', ''fields''}
   \<and> QuerySerializer_execute_sql example_serializer ''SELECT 1'' (Some ''repo'')
       = Inr [(''status'', PyBool True), (''row_count'', PyInt 1000),
              (''rows'', PyStr ''sometuples''), (''columns'', PyList [])]"
proof -
  have m: "mgr_execute_sql (self_manager example_serializer)
             (case Some ''repo'' of None \<Rightarrow> [] | Some r \<Rightarrow> if r = [] then [] else [r]) ''SELECT 1''
     = Inr [(''status'', PyBool True), (''row_count'', PyInt 1000),
            (''tuples'', PyStr ''sometuples''), (''fields'', PyList [])]"
    by (simp add: example_serializer_def example_manager_def)
  have k: "dict_keys [(''status'', PyBool True), (''row_count'', PyInt 1000),
                 (''tuples'', PyStr ''sometuples''), (''fields'', PyList [])]
       = {''status'', ''row_count'', ''tuples'', ''fields''}"
    by (simp add: dict_keys_def)
  have r: "QuerySerializer_execute_sql example_serializer ''SELECT 1'' (Some ''repo'')
       = Inr [(''status'', PyBool True), (''row_count'', PyInt 1000),
              (''rows'', PyStr ''sometuples''), (''columns'', PyList [])]"
    using QuerySerializer_execute_sql_keys [OF m]
    by (simp add: QuerySerializer_execute_sql_def example_serializer_def example_manager_def
        dict_pop_def)
  show ?thesis using m k r by simp
qed

section \<open>Creating and deleting a repo\<close>

text \<open>
  C6, as stated, fails for deletion: \<open>repo_delete\<close> has no test on the acting user. For
  the user \<open>mallory\<close> and the repo base \<open>alice\<close> it calls \<open>delete_repo\<close> on a manager of
  \<open>mallory\<close> and \<open>alice\<close> and redirects, where \<open>repo_create\<close> answers the same user with a
  permission-denied response.
\<close>

theorem repo_delete_counterexample:
  "req_username (example_request ''mallory'' POST) \<noteq> ''alice''
   \<and> repo_delete (\<lambda>user repo_base. example_manager) (example_request ''mallory'' POST)
        ''alice'' ''data''
       = (Inr (Some (HttpResponseRedirect ''browser-user-default'' [])),
          [Delete_repo ''mallory'' ''alice'' ''data'' True])"
  by (simp add: repo_delete_def example_request_def example_manager_def Let_def)

text \<open>
  C6, amended. A repo is created only by the owner of the repo base: when the acting user
  is not the repo base's owner, \<open>repo_create\<close> returns the permission-denied response and
  calls no manager method, and every \<open>create_repo\<close> call it ever makes is made by the
  owner on the owner's repo base. \<open>repo_delete\<close> leaves the decision to the manager: for
  every logged-in user it calls \<open>delete_repo(repo, force=True)\<close> on a manager bound to that
  user and the repo base.
\<close>

theorem repo_create_owner_only:
  assumes "req_authenticated request"
  shows "(req_username request \<noteq> repo_base \<longrightarrow>
            repo_create DataHubManager request repo_base =
              (Inr (Some (HttpResponseForbidden
                 (''Error: Permission Denied. '' @ req_username request
                    @ '' cannot create new repositories in '' @ repo_base @ ''.''))), []))
       \<and> (\<forall>call \<in> set (snd (repo_create DataHubManager request repo_base)).
             \<exists>repo. call = Create_repo repo_base repo_base repo)
       \<and> snd (repo_delete DataHubManager request repo_base repo) =
            [Delete_repo (req_username request) repo_base repo True]"
proof -
  have denied: "req_username request \<noteq> repo_base \<longrightarrow>
            repo_create DataHubManager request repo_base =
              (Inr (Some (HttpResponseForbidden
                 (''Error: Permission Denied. '' @ req_username request
                    @ '' cannot create new repositories in '' @ repo_base @ ''.''))), [])"
    using assms by (simp add: repo_create_def Let_def)
  have calls: "\<forall>call \<in> set (snd (repo_create DataHubManager request repo_base)).
             \<exists>repo. call = Create_repo repo_base repo_base repo"
    by (auto simp: repo_create_def Let_def split: if_splits option.splits sum.splits)
  have deleted: "snd (repo_delete DataHubManager request repo_base repo) =
            [Delete_repo (req_username request) repo_base repo True]"
    using assms by (simp add: repo_delete_def Let_def split: sum.splits)
  show ?thesis using denied calls deleted by blast
qed

theorem repo_create_owner_only_witness:
  "req_authenticated (example_request ''mallory'' POST)
   \<and> req_username (example_request ''mallory'' POST) \<noteq> ''alice''
   \<and> repo_create (\<lambda>user repo_base. example_manager) (example_request ''mallory'' POST) ''alice''
       = (Inr (Some (HttpResponseForbidden
            ''Error: Permission Denied. mallory cannot create new repositories in alice.'')), [])
   \<and> repo_create (\<lambda>user repo_base. example_manager) (example_request ''alice'' POST) ''alice''
       = (Inr (Some (HttpResponseRedirect ''browser-user'' [''alice''])),
          [Create_repo ''alice'' ''alice'' ''data''])
   \<and> snd (repo_delete (\<lambda>user repo_base. example_manager) (example_request ''mallory'' POST)
         ''alice'' ''data'') = [Delete_repo ''mallory'' ''alice'' ''data'' True]"
proof -
  have a: "req_authenticated (example_request ''mallory'' POST)"
    by (simp add: example_request_def)
  have o: "repo_create (\<lambda>user repo_base. example_manager) (example_request ''alice'' POST) ''alice''
       = (Inr (Some (HttpResponseRedirect ''browser-user'' [''alice''])),
          [Create_repo ''alice'' ''alice'' ''data''])"
    by (simp add: repo_create_def example_request_def example_manager_def Let_def)
  show ?thesis
    using repo_create_owner_only [OF a, of "''alice''" "\<lambda>user repo_base. example_manager" "''data''"] a o
    by (simp add: example_request_def)
qed

section \<open>Browsing the tables of a repo\<close>

text \<open>
  C9. When \<open>list_tables\<close> raises a \<open>LookupError\<close>, or \<open>list_tables\<close> returns and
  \<open>list_views\<close> raises one, \<open>repo_tables\<close> raises nothing: it renders the page with an
  empty list of base tables and an empty list of views.
\<close>

theorem repo_tables_falls_back:
  assumes "req_authenticated request"
    and "(\<exists>e. mgr_list_tables (DataHubManager (req_username request) repo_base) repo = Inl e
              \<and> isinstance_LookupError e)
         \<or> (\<exists>base_tables e.
               mgr_list_tables (DataHubManager (req_username request) repo_base) repo
                 = Inr base_tables
             \<and> mgr_list_views (DataHubManager (req_username request) repo_base) repo = Inl e
             \<and> isinstance_LookupError e)"
  shows "repo_tables DataHubManager request repo_base repo =
           Inr (render_to_response ''repo-browse-tables.html''
             [(''login'', PyStr (req_username request)),
              (''repo_base'', PyStr repo_base),
              (''repo'', PyStr repo),
              (''base_tables'', PyList []),
              (''views'', PyList []),
              (''csrf_token'', PyStr (req_csrf_token request))])"
  using assms by (auto simp: repo_tables_def csrf_def Let_def)

theorem repo_tables_falls_back_witness:
  "req_authenticated (example_request ''al_carter'' GET)
   \<and> mgr_list_tables example_manager ''gone'' = Inl LookupError
   \<and> isinstance_LookupError LookupError
   \<and> repo_tables (\<lambda>user repo_base. example_manager) (example_request ''al_carter'' GET)
        ''al_carter'' ''gone'' =
       Inr (render_to_response ''repo-browse-tables.html''
         [(''login'', PyStr ''al_carter''),
          (''repo_base'', PyStr ''al_carter''),
          (''repo'', PyStr ''gone''),
          (''base_tables'', PyList []),
          (''views'', PyList []),
          (''csrf_token'', PyStr ''token'')])"
proof -
  have a: "req_authenticated (example_request ''al_carter'' GET)"
    by (simp add: example_request_def)
  have t: "mgr_list_tables example_manager ''gone'' = Inl LookupError"
    by (simp add: example_manager_def)
  have h: "(\<exists>e. mgr_list_tables ((\<lambda>user repo_base. example_manager)
                  (req_username (example_request ''al_carter'' GET)) ''al_carter'') ''gone'' = Inl e
              \<and> isinstance_LookupError e)
         \<or> (\<exists>base_tables e.
               mgr_list_tables ((\<lambda>user repo_base. example_manager)
                  (req_username (example_request ''al_carter'' GET)) ''al_carter'') ''gone''
                 = Inr base_tables
             \<and> mgr_list_views ((\<lambda>user repo_base. example_manager)
                  (req_username (example_request ''al_carter'' GET)) ''al_carter'') ''gone'' = Inl e
             \<and> isinstance_LookupError e)"
    using t by simp
  show ?thesis
    using repo_tables_falls_back [OF a h] a t by (simp add: example_request_def)
qed

section \<open>The repos a user owns\<close>

lemma user_owned_repos_loop_map:
  "\<forall>r \<in> set repos. mgr_list_collaborators (self_manager self) r = Inr (cs r) \<Longrightarrow>
   user_owned_repos_loop self repos acc = Inr (acc @ map (repo_obj self cs) repos)"
  by (induction repos arbitrary: acc) (simp_all add: repo_obj_def)

text \<open>
  C10. Whatever repos the manager lists and whatever collaborators it reports for them,
  \<open>user_owned_repos\<close> returns one entry per repo under \<open>repos\<close>; the repo names of the
  entries are the listed names in ascending order, and every entry has the permissions
  \<open>ALL\<close> and, as owner, the username the serializer was built with.
\<close>

theorem user_owned_repos_sorted:
  assumes "mgr_list_repos (self_manager self) = Inr repos"
    and "\<forall>r \<in> set repos. mgr_list_collaborators (self_manager self) r = Inr (cs r)"
  shows "\<exists>objs. user_owned_repos self = Inr (PyDict [(''repos'', PyList objs)])
           \<and> map (\<lambda>obj. item obj ''repo_name'') objs = map (\<lambda>r. Some (PyStr r)) (sort repos)
           \<and> sorted (sort repos) \<and> mset (sort repos) = mset repos
           \<and> (\<forall>obj \<in> set objs. item obj ''permissions'' = Some (PyStr ''ALL'')
                \<and> item obj ''owner'' = Some (PyStr (self_username self)))"
proof -
  have "\<forall>r \<in> set (sort repos). mgr_list_collaborators (self_manager self) r = Inr (cs r)"
    using assms(2) by simp
  then have loop: "user_owned_repos_loop self (sort repos) []
                     = Inr (map (repo_obj self cs) (sort repos))"
    using user_owned_repos_loop_map [of "sort repos" self cs "[]"] by simp
  show ?thesis
    using assms(1) loop by (auto simp: user_owned_repos_def repo_obj_def)
qed

theorem user_owned_repos_sorted_witness:
  "mgr_list_repos (self_manager example_serializer) = Inr [''zoo'', ''apple'', ''mid'']
   \<and> user_owned_repos example_serializer =
       Inr (PyDict [(''repos'', PyList
         [PyDict [(''repo_name'', PyStr ''apple''), (''permissions'', PyStr ''ALL''),
                  (''collaborators'', PyList []), (''owner'', PyStr ''al_carter'')],
          PyDict [(''repo_name'', PyStr ''mid''), (''permissions'', PyStr ''ALL''),
                  (''collaborators'', PyList []), (''owner'', PyStr ''al_carter'')],
          PyDict [(''repo_name'', PyStr ''zoo''), (''permissions'', PyStr ''ALL''),
                  (''collaborators'', PyList []), (''owner'', PyStr ''al_carter'')]])])"
proof -
  have l: "mgr_list_repos (self_manager example_serializer) = Inr [''zoo'', ''apple'', ''mid'']"
    by (simp add: example_serializer_def example_manager_def)
  have c: "\<forall>r \<in> set [''zoo'', ''apple'', ''mid''].
      mgr_list_collaborators (self_manager example_serializer) r = Inr ((\<lambda>r. PyList []) r)"
    by (simp add: example_serializer_def example_manager_def)
  have s: "sort [''zoo'', ''apple'', ''mid''] = [''apple'', ''mid'', ''zoo'']"
    by simp
  have u: "user_owned_repos example_serializer =
       Inr (PyDict [(''repos'', PyList
         [PyDict [(''repo_name'', PyStr ''apple''), (''permissions'', PyStr ''ALL''),
                  (''collaborators'', PyList []), (''owner'', PyStr ''al_carter'')],
          PyDict [(''repo_name'', PyStr ''mid''), (''permissions'', PyStr ''ALL''),
                  (''collaborators'', PyList []), (''owner'', PyStr ''al_carter'')],
          PyDict [(''repo_name'', PyStr ''zoo''), (''permissions'', PyStr ''ALL''),
                  (''collaborators'', PyList []), (''owner'', PyStr ''al_carter'')]])])"
    using user_owned_repos_sorted [OF l c] s
    by (simp add: user_owned_repos_def example_serializer_def example_manager_def)
  show ?thesis using l u by simp
qed


end
